theory Spec2Isabelle
  imports Main
begin

section \<open>Offline cache synchronisation of frappe-react-sdk\<close>

text \<open>
  The three hooks \<^verbatim>\<open>useFrappeGetDocOffline\<close>, \<^verbatim>\<open>useFrappeGetDocListOffline\<close> and
  \<^verbatim>\<open>useFrappeGetCallOffline\<close> of \<^verbatim>\<open>src/lib/index.tsx\<close> read a record from the
  IndexedDB table \<^verbatim>\<open>docs\<close>, decide in an effect whether the server has to be asked
  again, hand a key (or \<^verbatim>\<open>null\<close>) to the fetching hook, write the answer back in a
  second effect and return one object. Each of these pieces is a function here: the
  values a render reads (React state, the answers of the other hooks) are arguments, and
  an effect that touches the table takes the table and returns it.
\<close>

subsection \<open>JavaScript values\<close>

text \<open>
  Payloads are JSON values. An object is the list of its own enumerable properties in
  enumeration order. \<^verbatim>\<open>undefined\<close> is \<open>None\<close> of an option type throughout.
  Characters are bytes, so the model is exact on ASCII text. A number is an integer that
  a double holds exactly.
\<close>

datatype json =
    JNull
  | JBool bool
  | JNum int
  | JStr string
  | JArr "json list"
  | JObj "(string \<times> json) list"

text \<open>The test \<^verbatim>\<open>if (data)\<close>.\<close>

fun truthy :: "json \<Rightarrow> bool" where
  "truthy JNull = False"
| "truthy (JBool b) = b"
| "truthy (JNum n) = (n \<noteq> 0)"
| "truthy (JStr s) = (s \<noteq> [])"
| "truthy (JArr xs) = True"
| "truthy (JObj kvs) = True"

text \<open>Decimal digits of an array index, as a property name.\<close>

fun nat_str :: "nat \<Rightarrow> string" where
  "nat_str n =
     (if n < 10 then [char_of (48 + n)]
      else nat_str (n div 10) @ [char_of (48 + n mod 10)])"

declare nat_str.simps [simp del]

text \<open>
  The object literal \<^verbatim>\<open>{ ...data }\<close>: the own enumerable properties of the value. An
  object gives its properties back, an array gives one property per index (and is no
  longer an array), a string one per character, any other primitive none.
\<close>

fun spread :: "json \<Rightarrow> json" where
  "spread (JObj kvs) = JObj kvs"
| "spread (JArr xs) = JObj (zip (map nat_str [0..<length xs]) xs)"
| "spread (JStr s) = JObj (zip (map nat_str [0..<length s]) (map (\<lambda>c. JStr [c]) s))"
| "spread v = JObj []"

text \<open>A value inside a template literal: \<^verbatim>\<open>`${name}`\<close> with \<^verbatim>\<open>name?: string\<close>.\<close>

definition tmpl :: "string option \<Rightarrow> string" where
  "tmpl s = (case s of None \<Rightarrow> ''undefined'' | Some t \<Rightarrow> t)"

text \<open>\<^verbatim>\<open>xs.join(sep)\<close> on strings.\<close>

fun join :: "string \<Rightarrow> string list \<Rightarrow> string" where
  "join sep [] = []"
| "join sep [x] = x"
| "join sep (x # y # ys) = x @ sep @ join sep (y # ys)"

text \<open>The conversion of a value to a string, as \<^verbatim>\<open>encodeURIComponent\<close> applies it.\<close>

text \<open>
  A number is printed in decimal digits below \<open>10\<^sup>2\<^sup>1\<close> and in exponent form from
  there on: the digits without their trailing zeros, a point after the first of them,
  and the exponent.
\<close>

function dec_str :: "int \<Rightarrow> string" where
  "dec_str n =
     (if n < 10 then [char_of (48 + nat n)]
      else dec_str (n div 10) @ [char_of (48 + nat (n mod 10))])"
  by pat_completeness auto
termination
  by (relation "measure nat") auto

declare dec_str.simps [simp del]

definition exp_str :: "int \<Rightarrow> string" where
  "exp_str n =
     (let ds = dec_str n;
          sig = rev (dropWhile (\<lambda>c. c = CHR ''0'') (rev ds))
      in (case sig of
            [] \<Rightarrow> []
          | c # cs \<Rightarrow> c # (if cs = [] then [] else CHR ''.'' # cs))
         @ ''e+'' @ nat_str (length ds - 1))"

definition num_str :: "int \<Rightarrow> string" where
  "num_str n = (if n < 1000000000000000000000 then dec_str n else exp_str n)"

fun int_str :: "int \<Rightarrow> string" where
  "int_str i = (if i < 0 then CHR ''-'' # num_str (- i) else num_str i)"

fun js_String :: "json \<Rightarrow> string" where
  "js_String JNull = ''null''"
| "js_String (JBool b) = (if b then ''true'' else ''false'')"
| "js_String (JNum n) = int_str n"
| "js_String (JStr s) = s"
| "js_String (JArr xs) =
     join '','' (map (\<lambda>x. if x = JNull then [] else js_String x) xs)"
| "js_String (JObj kvs) = ''[object Object]''"

text \<open>\<^verbatim>\<open>encodeURIComponent\<close>: every byte but the unreserved ones becomes \<^verbatim>\<open>%XX\<close>.\<close>

definition unreserved :: "char \<Rightarrow> bool" where
  "unreserved c =
     (let n = (of_char c :: nat) in
        (65 \<le> n \<and> n \<le> 90) \<or> (97 \<le> n \<and> n \<le> 122) \<or> (48 \<le> n \<and> n \<le> 57)
        \<or> c \<in> set ''-_.!~*'()'')"

definition hex_digit :: "nat \<Rightarrow> char" where
  "hex_digit n = (if n < 10 then char_of (48 + n) else char_of (55 + n))"

definition encodeURIComponent :: "string \<Rightarrow> string" where
  "encodeURIComponent s =
     concat (map (\<lambda>c. if unreserved c then [c]
                       else [CHR ''%'', hex_digit ((of_char c :: nat) div 16),
                             hex_digit ((of_char c :: nat) mod 16)]) s)"

text \<open>
  \<^verbatim>\<open>encodeQueryData\<close> (index.tsx, line 1165): one \<^verbatim>\<open>key=value\<close> per property, joined
  by \<^verbatim>\<open>&\<close>.
\<close>

definition encodeQueryData :: "(string \<times> json) list \<Rightarrow> string" where
  "encodeQueryData data' =
     join ''&'' (map (\<lambda>(d, v). encodeURIComponent d @ ''='' @ encodeURIComponent (js_String v)) data')"

subsection \<open>Numbers, dates and the conversion of timestamps\<close>

text \<open>
  A JavaScript number that a date yields is an integer or \<^verbatim>\<open>NaN\<close>; \<open>None\<close> is
  \<^verbatim>\<open>NaN\<close>. A comparison with \<^verbatim>\<open>NaN\<close> is false. \<^verbatim>\<open>Math.floor\<close> of such a number is
  the number itself.
\<close>

datatype js_exn = TypeError | RangeError

definition js_gt :: "int option \<Rightarrow> int option \<Rightarrow> bool" where
  "js_gt a b = (case a of None \<Rightarrow> False
                | Some x \<Rightarrow> (case b of None \<Rightarrow> False | Some y \<Rightarrow> y < x))"

text \<open>\<^verbatim>\<open>s.split(c)\<close> for a separator of one character: never an empty array.\<close>

fun split_on :: "char \<Rightarrow> string \<Rightarrow> string list" where
  "split_on c [] = [[]]"
| "split_on c (x # xs) =
     (if x = c then [] # split_on c xs
      else (case split_on c xs of [] \<Rightarrow> [[x]] | w # ws \<Rightarrow> (x # w) # ws))"

text \<open>An element taken by array destructuring: \<^verbatim>\<open>undefined\<close> past the end.\<close>

definition nth_opt :: "'a list \<Rightarrow> nat \<Rightarrow> 'a option" where
  "nth_opt xs i = (if i < length xs then Some (xs ! i) else None)"

text \<open>
  The host's \<^verbatim>\<open>Math.floor(new Date(+year, parseInt(month) - 1, +day, +hours, +minutes,
  +seconds).getTime())\<close>, a function of the six destructured fields. It reads the host's
  time zone, so it is an argument of everything that converts a timestamp.
\<close>

type_synonym date_ctor =
  "string option \<Rightarrow> string option \<Rightarrow> string option \<Rightarrow>
   string option \<Rightarrow> string option \<Rightarrow> string option \<Rightarrow> int option"

text \<open>
  \<^verbatim>\<open>convertDateToMiliseconds\<close> (line 1992). \<^verbatim>\<open>timeComponents.split(':')\<close> throws a
  \<^verbatim>\<open>TypeError\<close> when the string has no blank.
\<close>

definition convertDateToMiliseconds :: "date_ctor \<Rightarrow> string \<Rightarrow> js_exn + int option" where
  "convertDateToMiliseconds newDate dateStr =
     (let parts = split_on CHR '' '' dateStr;
          dateComponents = (case nth_opt parts 0 of None \<Rightarrow> [] | Some dc \<Rightarrow> dc);
          timeComponents = nth_opt parts 1;
          ymd = split_on CHR ''-'' dateComponents
      in case timeComponents of
           None \<Rightarrow> Inl TypeError
         | Some tc \<Rightarrow>
             (let hms = split_on CHR '':'' tc
              in Inr (newDate (nth_opt ymd 0) (nth_opt ymd 1) (nth_opt ymd 2)
                              (nth_opt hms 0) (nth_opt hms 1) (nth_opt hms 2))))"

text \<open>
  The hint of the call hook is \<^verbatim>\<open>string | Date\<close>; a \<^verbatim>\<open>Date\<close> is its time value
  (\<^verbatim>\<open>NaN\<close> for an invalid date).
\<close>

datatype lastModifiedHint = HintString string | HintDate "int option"

text \<open>\<^verbatim>\<open>convertDateToMilisecondsForGetCall\<close> (line 1974).\<close>

definition convertDateToMilisecondsForGetCall ::
    "date_ctor \<Rightarrow> lastModifiedHint \<Rightarrow> js_exn + int option" where
  "convertDateToMilisecondsForGetCall newDate date =
     (case date of
        HintString s \<Rightarrow> convertDateToMiliseconds newDate s
      | HintDate t \<Rightarrow> Inr t)"

text \<open>
  \<^verbatim>\<open>checkTypeOfDate\<close> (line 1983). \<^verbatim>\<open>formatedTimestamp\<close> is built from
  \<^verbatim>\<open>toISOString\<close> and \<^verbatim>\<open>toTimeString\<close> of the host, so it is the argument \<open>fmt\<close>;
  \<^verbatim>\<open>toISOString\<close> throws a \<^verbatim>\<open>RangeError\<close> on an invalid date.
\<close>

definition formatedTimestamp :: "(int \<Rightarrow> string) \<Rightarrow> int option \<Rightarrow> js_exn + string" where
  "formatedTimestamp fmt d = (case d of None \<Rightarrow> Inl RangeError | Some t \<Rightarrow> Inr (fmt t))"

definition checkTypeOfDate :: "(int \<Rightarrow> string) \<Rightarrow> lastModifiedHint \<Rightarrow> js_exn + string" where
  "checkTypeOfDate fmt date =
     (case date of
        HintString s \<Rightarrow> Inr s
      | HintDate t \<Rightarrow> formatedTimestamp fmt t)"

text \<open>The test \<^verbatim>\<open>lastModified &&\<close>: an empty string is falsy, a \<^verbatim>\<open>Date\<close> never is.\<close>

definition hint_truthy :: "lastModifiedHint option \<Rightarrow> bool" where
  "hint_truthy h =
     (case h of None \<Rightarrow> False | Some (HintString s) \<Rightarrow> s \<noteq> [] | Some (HintDate t) \<Rightarrow> True)"

subsection \<open>A host in the time zone UTC\<close>

text \<open>
  One instance of \<open>date_ctor\<close>, for evaluating the hooks on concrete timestamps: the
  \<^verbatim>\<open>Date\<close> constructor of ECMAScript (MakeDay, MakeTime, the years 0 to 99 counted from
  1900, TimeClip) in the time zone UTC, with the fields read as the code reads them:
  \<^verbatim>\<open>parseInt\<close> for the month, the unary \<^verbatim>\<open>+\<close> for the others, each then cut to an
  integer by the constructor. \<open>None\<close> is \<^verbatim>\<open>NaN\<close> or an infinity, which make the date
  invalid alike. The instance is exact wherever the rounding of a literal to a double
  does not change its integer part.
\<close>

definition js_ws :: "char \<Rightarrow> bool" where
  "js_ws c = (c \<in> set [CHR '' '', CHR 0x09, CHR 0x0A, CHR 0x0B, CHR 0x0C, CHR 0x0D])"

definition js_trim :: "string \<Rightarrow> string" where
  "js_trim s = rev (dropWhile js_ws (rev (dropWhile js_ws s)))"

definition digit_val :: "nat \<Rightarrow> char \<Rightarrow> nat option" where
  "digit_val radix c =
     (let n = (of_char c :: nat);
          v = (if 48 \<le> n \<and> n \<le> 57 then Some (n - 48)
               else if 97 \<le> n \<and> n \<le> 122 then Some (n - 87)
               else if 65 \<le> n \<and> n \<le> 90 then Some (n - 55)
               else None)
      in case v of None \<Rightarrow> None | Some d \<Rightarrow> if d < radix then Some d else None)"

definition is_digit :: "nat \<Rightarrow> char \<Rightarrow> bool" where
  "is_digit radix c = (digit_val radix c \<noteq> None)"

definition digits_val :: "nat \<Rightarrow> string \<Rightarrow> int" where
  "digits_val radix s =
     foldl (\<lambda>acc c. int radix * acc
                    + int (case digit_val radix c of None \<Rightarrow> 0 | Some d \<Rightarrow> d)) 0 s"

text \<open>
  \<^verbatim>\<open>parseInt(s)\<close>: leading white space, a sign, the prefix \<^verbatim>\<open>0x\<close> for radix 16, then
  the longest run of digits; \<^verbatim>\<open>NaN\<close> when there is none.
\<close>

definition js_parseInt :: "string \<Rightarrow> int option" where
  "js_parseInt s =
     (let t = dropWhile js_ws s;
          neg = (case t of [] \<Rightarrow> False | c # r \<Rightarrow> c = CHR ''-'');
          u = (case t of [] \<Rightarrow> [] | c # r \<Rightarrow> if c = CHR ''-'' \<or> c = CHR ''+'' then r else t);
          hex = (case u of
                   a # b # r \<Rightarrow> a = CHR ''0'' \<and> (b = CHR ''x'' \<or> b = CHR ''X'')
                 | _ \<Rightarrow> False);
          radix = (if hex then 16 else 10);
          ds = takeWhile (is_digit radix) (if hex then drop 2 u else u)
      in if ds = [] then None
         else Some (if neg then - digits_val radix ds else digits_val radix ds))"

text \<open>An unsigned literal with a radix prefix: \<^verbatim>\<open>0x1F\<close>, \<^verbatim>\<open>0o17\<close>, \<^verbatim>\<open>0b101\<close>.\<close>

definition radix_literal :: "string \<Rightarrow> (nat \<times> string) option" where
  "radix_literal t =
     (case t of
        a # b # r \<Rightarrow>
          if a \<noteq> CHR ''0'' then None
          else if b = CHR ''x'' \<or> b = CHR ''X'' then Some (16, r)
          else if b = CHR ''o'' \<or> b = CHR ''O'' then Some (8, r)
          else if b = CHR ''b'' \<or> b = CHR ''B'' then Some (2, r)
          else None
      | _ \<Rightarrow> None)"

text \<open>
  The exponent part of a decimal literal: nothing, or \<^verbatim>\<open>e\<close>, a sign and digits.
  \<open>None\<close> when the rest of the string is neither.
\<close>

definition exponent_part :: "string \<Rightarrow> int option" where
  "exponent_part r =
     (case r of
        [] \<Rightarrow> Some 0
      | c # r' \<Rightarrow>
          if c = CHR ''e'' \<or> c = CHR ''E'' then
            (let neg = (case r' of [] \<Rightarrow> False | x # y \<Rightarrow> x = CHR ''-'');
                 ds = (case r' of
                         [] \<Rightarrow> []
                       | x # y \<Rightarrow> if x = CHR ''-'' \<or> x = CHR ''+'' then y else r')
             in if ds \<noteq> [] \<and> list_all (is_digit 10) ds
                then Some (if neg then - digits_val 10 ds else digits_val 10 ds)
                else None)
          else None)"

text \<open>
  The unary \<^verbatim>\<open>+s\<close> followed by the cut to an integer (toward zero) that the
  constructor applies: white space is trimmed, the empty string is 0, then a literal
  with a radix prefix or a signed decimal literal with an optional fraction and
  exponent. Everything else, \<^verbatim>\<open>Infinity\<close> included, is \<open>None\<close>.
\<close>

definition js_number_trunc :: "string \<Rightarrow> int option" where
  "js_number_trunc s =
     (let t = js_trim s in
      if t = [] then Some 0
      else
        (case radix_literal t of
           Some (radix, ds) \<Rightarrow>
             if ds \<noteq> [] \<and> list_all (is_digit radix) ds then Some (digits_val radix ds)
             else None
         | None \<Rightarrow>
             (let neg = (hd t = CHR ''-'');
                  u = (if hd t = CHR ''-'' \<or> hd t = CHR ''+'' then tl t else t);
                  ip = takeWhile (is_digit 10) u;
                  r1 = dropWhile (is_digit 10) u;
                  dot = (case r1 of [] \<Rightarrow> False | c # r \<Rightarrow> c = CHR ''.'');
                  fr = (if dot then takeWhile (is_digit 10) (tl r1) else []);
                  r2 = (if dot then dropWhile (is_digit 10) (tl r1) else r1)
              in if ip = [] \<and> fr = [] then None
                 else
                   (case exponent_part r2 of
                      None \<Rightarrow> None
                    | Some e \<Rightarrow>
                        (let n = digits_val 10 (ip @ fr);
                             k = e - int (length fr);
                             m = (if 0 \<le> k then n * 10 ^ nat k else n div 10 ^ nat (- k))
                         in Some (if neg then - m else m))))))"

definition days_from_civil :: "int \<Rightarrow> int \<Rightarrow> int \<Rightarrow> int" where
  "days_from_civil y m d =
     (let y' = (if m \<le> 2 then y - 1 else y);
          era = y' div 400;
          yoe = y' - era * 400;
          doy = (153 * (if 2 < m then m - 3 else m + 9) + 2) div 5 + d - 1;
          doe = yoe * 365 + yoe div 4 - yoe div 100 + doy
      in era * 146097 + doe - 719468)"

definition utc_ms :: "int \<Rightarrow> int \<Rightarrow> int \<Rightarrow> int \<Rightarrow> int \<Rightarrow> int \<Rightarrow> int option" where
  "utc_ms year monthIndex day hours minutes seconds =
     (let yr = (if 0 \<le> year \<and> year \<le> 99 then 1900 + year else year);
          ym = yr + monthIndex div 12;
          mn = monthIndex mod 12;
          dayNo = days_from_civil ym (mn + 1) 1 + day - 1;
          t = dayNo * 86400000 + hours * 3600000 + minutes * 60000 + seconds * 1000
      in if \<bar>t\<bar> \<le> 8640000000000000 then Some t else None)"

definition utcDate :: date_ctor where
  "utcDate year month day hours minutes seconds =
     (case (Option.bind year js_number_trunc, Option.bind month js_parseInt,
            Option.bind day js_number_trunc, Option.bind hours js_number_trunc,
            Option.bind minutes js_number_trunc, Option.bind seconds js_number_trunc) of
        (Some y, Some mo, Some d, Some h, Some mi, Some s) \<Rightarrow> utc_ms y (mo - 1) d h mi s
      | _ \<Rightarrow> None)"

subsection \<open>The table \<^verbatim>\<open>docs\<close> and the record it holds\<close>

text \<open>
  \<^verbatim>\<open>lastFetchType\<close> (db.ts). The code writes \<^verbatim>\<open>name\<close>, \<^verbatim>\<open>data.modified\<close> and
  \<^verbatim>\<open>listCount\<close> into the record as they are, so these three fields can hold
  \<^verbatim>\<open>undefined\<close>. \<^verbatim>\<open>lastFetchedOn\<close> is always \<^verbatim>\<open>new Date()\<close>, a valid date, kept as its
  time value in milliseconds.
\<close>

record lastFetchType =
  lf_id :: string
  lf_name :: "string option"
  lf_doctype :: string
  lastFetchedOn :: int
  lf_modified :: "json option"
  lf_count :: "int option"
  lf_data :: json

type_synonym table = "string \<rightharpoonup> lastFetchType"

definition table_get :: "table \<Rightarrow> string \<Rightarrow> lastFetchType option" where
  "table_get tbl k = tbl k"

definition table_put :: "table \<Rightarrow> lastFetchType \<Rightarrow> table" where
  "table_put tbl r = tbl(lf_id r \<mapsto> r)"

definition table_delete :: "table \<Rightarrow> string \<Rightarrow> table" where
  "table_delete tbl k = tbl(k := None)"

text \<open>
  The state of \<^verbatim>\<open>useGetLastFetched\<close> (line 1956): \<^verbatim>\<open>null\<close> until the table has
  answered, then \<^verbatim>\<open>undefined\<close> or the record.
\<close>

datatype lastFetched = LNull | LUndefined | LRec lastFetchType

definition useGetLastFetched_initial :: lastFetched where
  "useGetLastFetched_initial = LNull"

definition getLastFetched :: "table \<Rightarrow> string \<Rightarrow> string option \<Rightarrow> lastFetched" where
  "getLastFetched db doctype_or_method name_or_args =
     (case table_get db (doctype_or_method @ ''_'' @ tmpl name_or_args) of
        None \<Rightarrow> LUndefined
      | Some l \<Rightarrow> LRec l)"

definition lastFetchExist :: "lastFetched \<Rightarrow> bool" where
  "lastFetchExist lastFetched = (lastFetched \<noteq> LUndefined \<and> lastFetched \<noteq> LNull)"

text \<open>A property of a value that is read: \<^verbatim>\<open>data.modified\<close>.\<close>

fun js_prop :: "json \<Rightarrow> string \<Rightarrow> json option" where
  "js_prop (JObj kvs) k = map_of kvs k"
| "js_prop v k = None"

subsection \<open>What the fetching hooks give and take\<close>

text \<open>
  The third argument of \<^verbatim>\<open>useFrappeGetDoc\<close>, \<^verbatim>\<open>useFrappeGetDocList\<close> and
  \<^verbatim>\<open>useFrappeGetCall\<close>: \<^verbatim>\<open>undefined\<close> lets the hook build its own key and fetch,
  \<^verbatim>\<open>null\<close> is handed to \<^verbatim>\<open>useSWR\<close> as it is and nothing is fetched.
\<close>

datatype swrKey = KeyNull | KeyUndefined

record swrResponse =
  swr_data :: "json option"
  swr_error :: "string option"
  swr_isLoading :: bool
  swr_isValidating :: bool

text \<open>\<^verbatim>\<open>CustomError\<close> (line 2016) and the object a hook returns.\<close>

record CustomError =
  httpStatus :: int
  httpStatusText :: string
  message :: string
  exception :: string

datatype error_value = FetchError string | Custom CustomError

record hookResult =
  isLoadedFromServer :: bool
  data :: "json option"
  error :: "error_value option"
  isLoading :: bool
  isValidating :: bool

definition forbidden :: "string \<Rightarrow> error_value" where
  "forbidden doctype =
     Custom \<lparr> httpStatus = 403, httpStatusText = ''FORBIDDEN'',
              message = ''there was an error'',
              exception = ''frappe.exceptions.PermissionError: No permission for '' @ doctype \<rparr>"

text \<open>
  \<^verbatim>\<open>useEffect(callback, [data])\<close>: React runs the callback after the first render, and
  after a later render only when \<^verbatim>\<open>data\<close> is not the value the render before had.
  \<open>prev\<close> is \<open>None\<close> at the first render.
\<close>

definition deps_changed :: "'a option \<Rightarrow> 'a \<Rightarrow> bool" where
  "deps_changed prev cur = (case prev of None \<Rightarrow> True | Some p \<Rightarrow> p \<noteq> cur)"

subsection \<open>\<^verbatim>\<open>useFrappeGetDocOffline\<close> (line 1579)\<close>

text \<open>
  \<open>hasPermission\<close> is \<^verbatim>\<open>permission?.message.has_permission\<close>: \<open>None\<close> until the
  permission call has answered. \<open>modified\<close> is the answer of the timestamp call: \<open>None\<close>
  while there is none, \<open>Some None\<close> when the answer has no field \<^verbatim>\<open>modified\<close>.
\<close>

definition getDoc_id :: "string \<Rightarrow> string option \<Rightarrow> string" where
  "getDoc_id doctype name = doctype @ ''_'' @ tmpl name"

text \<open>The key of the timestamp call: \<^verbatim>\<open>lastFetchExist && hasPermission ? undefined : null\<close>.\<close>

definition getDoc_modified_key :: "lastFetched \<Rightarrow> bool option \<Rightarrow> swrKey" where
  "getDoc_modified_key lastFetched hasPermission =
     (if lastFetchExist lastFetched \<and> hasPermission = Some True then KeyUndefined else KeyNull)"

text \<open>\<^verbatim>\<open>lastFetched?.modified\<close>.\<close>

definition modified_of :: "lastFetched \<Rightarrow> json option" where
  "modified_of lastFetched = (case lastFetched of LRec r \<Rightarrow> lf_modified r | _ \<Rightarrow> None)"

text \<open>
  The first effect (lines 1623 to 1647): the new value of \<^verbatim>\<open>shouldLoad\<close> and the table.
\<close>

definition getDoc_staleness_effect ::
    "string \<Rightarrow> string option \<Rightarrow> bool option \<Rightarrow> lastFetched \<Rightarrow> string option option \<Rightarrow>
     bool \<Rightarrow> table \<Rightarrow> bool \<times> table" where
  "getDoc_staleness_effect doctype name hasPermission lastFetched modified shouldLoad indexdb =
     (if hasPermission \<noteq> Some True then
        (if lastFetchExist lastFetched
         then (shouldLoad, table_delete indexdb (doctype @ ''_'' @ tmpl name))
         else (shouldLoad, indexdb))
      else if lastFetched = LUndefined then (True, indexdb)
      else if lastFetchExist lastFetched \<and>
              (case modified of
                 None \<Rightarrow> False
               | Some None \<Rightarrow> False
               | Some (Some m) \<Rightarrow> m \<noteq> [] \<and> Some (JStr m) \<noteq> modified_of lastFetched)
           then (True, indexdb)
      else if lastFetchExist lastFetched \<and>
              (case modified of None \<Rightarrow> False | Some mm \<Rightarrow> mm = None)
           then (True, indexdb)
      else (shouldLoad, indexdb))"

text \<open>The key of the document fetch: \<^verbatim>\<open>shouldLoad && hasPermission ? undefined : null\<close>.\<close>

definition getDoc_fetch_key :: "bool \<Rightarrow> bool option \<Rightarrow> swrKey" where
  "getDoc_fetch_key shouldLoad hasPermission =
     (if shouldLoad \<and> hasPermission = Some True then KeyUndefined else KeyNull)"

text \<open>
  The callback of the second effect (lines 1656 to 1670); \<open>now\<close> is \<^verbatim>\<open>new Date()\<close>.
  \<open>getDoc_store_effect_run\<close> below is the effect with its dependency array.
\<close>

definition getDoc_store_effect ::
    "string \<Rightarrow> string option \<Rightarrow> swrResponse \<Rightarrow> lastFetched \<Rightarrow> int \<Rightarrow> table \<Rightarrow> table" where
  "getDoc_store_effect doctype name swr lastFetched now indexdb =
     (case swr_data swr of
        Some d \<Rightarrow>
          if truthy d then
            table_put indexdb
              \<lparr> lf_id = doctype @ ''_'' @ tmpl name, lf_name = name, lf_doctype = doctype,
                lastFetchedOn = now, lf_modified = js_prop d ''modified'',
                lf_count = Some 1, lf_data = spread d \<rparr>
          else if swr_error swr \<noteq> None \<and> lastFetchExist lastFetched
               then table_delete indexdb (doctype @ ''_'' @ tmpl name)
          else indexdb
      | None \<Rightarrow>
          if swr_error swr \<noteq> None \<and> lastFetchExist lastFetched
          then table_delete indexdb (doctype @ ''_'' @ tmpl name)
          else indexdb)"

text \<open>
  The second effect as React runs it, with the dependency array \<^verbatim>\<open>[data]\<close> of line
  1670: \<open>prevData\<close> is the \<^verbatim>\<open>data\<close> of the render before.
\<close>

definition getDoc_store_effect_run ::
    "json option option \<Rightarrow> string \<Rightarrow> string option \<Rightarrow> swrResponse \<Rightarrow> lastFetched \<Rightarrow> int \<Rightarrow>
     table \<Rightarrow> table" where
  "getDoc_store_effect_run prevData doctype name swr lastFetched now indexdb =
     (if deps_changed prevData (swr_data swr)
      then getDoc_store_effect doctype name swr lastFetched now indexdb
      else indexdb)"

text \<open>The returned object (lines 1687 to 1695), without its two closures.\<close>

definition useFrappeGetDocOffline ::
    "string \<Rightarrow> bool option \<Rightarrow> lastFetched \<Rightarrow> bool \<Rightarrow> swrResponse \<Rightarrow> hookResult" where
  "useFrappeGetDocOffline doctype hasPermission lastFetched shouldLoad swr =
     \<lparr> isLoadedFromServer = shouldLoad,
       data = (if shouldLoad then swr_data swr
               else (case lastFetched of LRec r \<Rightarrow> Some (lf_data r) | _ \<Rightarrow> None)),
       error = (if hasPermission = Some True then map_option FetchError (swr_error swr)
                else Some (forbidden doctype)),
       isLoading = (if shouldLoad then swr_isLoading swr else lastFetched = LUndefined),
       isValidating = (if shouldLoad then swr_isValidating swr else False) \<rparr>"

subsection \<open>\<^verbatim>\<open>useFrappeGetDocListOffline\<close> (line 1708)\<close>

text \<open>
  \<open>q\<close> is \<^verbatim>\<open>getDocListQueryString(args)\<close>. \<open>listCount\<close> is the answer of the count call,
  \<open>modified\<close> the rows of the one-row query ordered by \<^verbatim>\<open>modified\<close> descending, each
  row being its field \<^verbatim>\<open>modified\<close>.
\<close>

definition getDocList_id :: "string \<Rightarrow> string \<Rightarrow> string" where
  "getDocList_id doctype q = doctype @ ''_'' @ q"

text \<open>The key of the count call: \<^verbatim>\<open>hasPermission ? undefined : null\<close>.\<close>

definition getDocList_count_key :: "bool option \<Rightarrow> swrKey" where
  "getDocList_count_key hasPermission =
     (if hasPermission = Some True then KeyUndefined else KeyNull)"

definition countNotChanged :: "lastFetched \<Rightarrow> int option \<Rightarrow> bool" where
  "countNotChanged lastFetchedList listCount =
     (case lastFetchedList of
        LRec r \<Rightarrow> listCount \<noteq> None \<and> listCount = lf_count r
      | _ \<Rightarrow> False)"

text \<open>The key of the one-row query: \<^verbatim>\<open>countNotChanged ? undefined : null\<close>.\<close>

definition getDocList_modified_key :: "lastFetched \<Rightarrow> int option \<Rightarrow> swrKey" where
  "getDocList_modified_key lastFetchedList listCount =
     (if countNotChanged lastFetchedList listCount then KeyUndefined else KeyNull)"

text \<open>
  The first effect (lines 1771 to 1796). The conversion of the row's timestamp can
  throw, and then nothing is set.
\<close>

definition getDocList_staleness_effect ::
    "date_ctor \<Rightarrow> string \<Rightarrow> string \<Rightarrow> bool option \<Rightarrow> lastFetched \<Rightarrow> int option \<Rightarrow>
     string list option \<Rightarrow> bool \<Rightarrow> table \<Rightarrow> js_exn + bool \<times> table" where
  "getDocList_staleness_effect newDate doctype q hasPermission lastFetchedList listCount modified
       shouldLoad indexdb =
     (if hasPermission \<noteq> Some True then
        (if lastFetchExist lastFetchedList
         then Inr (shouldLoad, table_delete indexdb (doctype @ ''_'' @ q))
         else Inr (shouldLoad, indexdb))
      else
        (case lastFetchedList of
           LUndefined \<Rightarrow> Inr (True, indexdb)
         | LNull \<Rightarrow> Inr (shouldLoad, indexdb)
         | LRec r \<Rightarrow>
             if (case listCount of
                   None \<Rightarrow> False
                 | Some c \<Rightarrow> (c \<noteq> 0 \<or> c = 0) \<and> Some c \<noteq> lf_count r)
             then Inr (True, indexdb)
             else
               (case modified of
                  None \<Rightarrow> Inr (shouldLoad, indexdb)
                | Some [] \<Rightarrow> Inr (shouldLoad, indexdb)
                | Some (row # rows) \<Rightarrow>
                    (case convertDateToMiliseconds newDate row of
                       Inl e \<Rightarrow> Inl e
                     | Inr t \<Rightarrow>
                         if js_gt t (Some (lastFetchedOn r)) then Inr (True, indexdb)
                         else Inr (shouldLoad, indexdb)))))"

definition getDocList_fetch_key :: "bool \<Rightarrow> bool option \<Rightarrow> swrKey" where
  "getDocList_fetch_key shouldLoad hasPermission =
     (if shouldLoad \<and> hasPermission = Some True then KeyUndefined else KeyNull)"

text \<open>
  The callback of the second effect (lines 1808 to 1823). The object literal reads the
  clock twice: \<open>now\<close> for \<^verbatim>\<open>lastFetchedOn\<close>, \<open>now'\<close> inside
  \<^verbatim>\<open>formatedTimestamp(new Date())\<close>. \<open>getDocList_store_effect_run\<close> below is the effect
  with its dependency array.
\<close>

definition getDocList_store_effect ::
    "(int \<Rightarrow> string) \<Rightarrow> string \<Rightarrow> string \<Rightarrow> swrResponse \<Rightarrow> lastFetched \<Rightarrow> int option \<Rightarrow>
     string list option \<Rightarrow> int \<Rightarrow> int \<Rightarrow> table \<Rightarrow> table" where
  "getDocList_store_effect fmt doctype q swr lastFetchedList listCount modified now now' indexdb =
     (case swr_data swr of
        Some d \<Rightarrow>
          if truthy d then
            table_put indexdb
              \<lparr> lf_id = doctype @ ''_'' @ q, lf_name = Some (doctype @ ''_'' @ q),
                lf_doctype = doctype, lastFetchedOn = now,
                lf_modified =
                  Some (JStr (case modified of
                                Some (row # rows) \<Rightarrow> if row \<noteq> [] then row else fmt now'
                              | _ \<Rightarrow> fmt now')),
                lf_count = listCount, lf_data = spread d \<rparr>
          else if swr_error swr \<noteq> None \<and> lastFetchExist lastFetchedList
               then table_delete indexdb (doctype @ ''_'' @ q)
          else indexdb
      | None \<Rightarrow>
          if swr_error swr \<noteq> None \<and> lastFetchExist lastFetchedList
          then table_delete indexdb (doctype @ ''_'' @ q)
          else indexdb)"

text \<open>The second effect as React runs it, with the dependency array \<^verbatim>\<open>[data]\<close>.\<close>

definition getDocList_store_effect_run ::
    "json option option \<Rightarrow> (int \<Rightarrow> string) \<Rightarrow> string \<Rightarrow> string \<Rightarrow> swrResponse \<Rightarrow>
     lastFetched \<Rightarrow> int option \<Rightarrow> string list option \<Rightarrow> int \<Rightarrow> int \<Rightarrow> table \<Rightarrow> table" where
  "getDocList_store_effect_run prevData fmt doctype q swr lastFetchedList listCount modified
       now now' indexdb =
     (if deps_changed prevData (swr_data swr)
      then getDocList_store_effect fmt doctype q swr lastFetchedList listCount modified now now'
             indexdb
      else indexdb)"

text \<open>The returned object (lines 1840 to 1849).\<close>

definition useFrappeGetDocListOffline ::
    "string \<Rightarrow> bool option \<Rightarrow> lastFetched \<Rightarrow> bool \<Rightarrow> swrResponse \<Rightarrow> hookResult" where
  "useFrappeGetDocListOffline doctype hasPermission lastFetchedList shouldLoad swr =
     \<lparr> isLoadedFromServer = shouldLoad,
       data = (if shouldLoad then swr_data swr
               else (case lastFetchedList of LRec r \<Rightarrow> Some (lf_data r) | _ \<Rightarrow> None)),
       error = (if hasPermission = Some True then map_option FetchError (swr_error swr)
                else Some (forbidden doctype)),
       isLoading = (if shouldLoad then swr_isLoading swr else lastFetchedList = LUndefined),
       isValidating = (if shouldLoad then swr_isValidating swr else False) \<rparr>"

subsection \<open>\<^verbatim>\<open>useFrappeGetCallOffline\<close> (line 1862)\<close>

text \<open>
  \<open>params\<close> is \<^verbatim>\<open>params?: Record<string, any>\<close>; the record is read and written under
  \<^verbatim>\<open>`${method}_${encodeQueryData(params ?? {})}`\<close>.
\<close>

definition getCall_id :: "string \<Rightarrow> (string \<times> json) list option \<Rightarrow> string" where
  "getCall_id method params =
     method @ ''_'' @ encodeQueryData (case params of None \<Rightarrow> [] | Some ps \<Rightarrow> ps)"

text \<open>An object inside a template literal: \<^verbatim>\<open>`${params}`\<close>.\<close>

definition tmpl_obj :: "(string \<times> json) list option \<Rightarrow> string" where
  "tmpl_obj params = (case params of None \<Rightarrow> ''undefined'' | Some ps \<Rightarrow> ''[object Object]'')"

text \<open>The first effect (lines 1885 to 1896): the new value of \<^verbatim>\<open>shouldLoad\<close>.\<close>

definition getCall_staleness_effect ::
    "date_ctor \<Rightarrow> lastFetched \<Rightarrow> lastModifiedHint option \<Rightarrow> bool \<Rightarrow> js_exn + bool" where
  "getCall_staleness_effect newDate lastFetchedData lastModified shouldLoad =
     (case lastFetchedData of
        LUndefined \<Rightarrow> Inr True
      | LNull \<Rightarrow> Inr shouldLoad
      | LRec r \<Rightarrow>
          (case lastModified of
             None \<Rightarrow> Inr shouldLoad
           | Some h \<Rightarrow>
               if hint_truthy lastModified then
                 (case convertDateToMilisecondsForGetCall newDate h of
                    Inl e \<Rightarrow> Inl e
                  | Inr t \<Rightarrow>
                      if js_gt t (Some (lastFetchedOn r)) then Inr True else Inr shouldLoad)
               else Inr shouldLoad))"

text \<open>The key of the call: \<^verbatim>\<open>shouldLoad ? undefined : null\<close>.\<close>

definition getCall_fetch_key :: "bool \<Rightarrow> swrKey" where
  "getCall_fetch_key shouldLoad = (if shouldLoad then KeyUndefined else KeyNull)"

text \<open>
  The callback of the second effect (lines 1909 to 1925). The record is written under the
  composite key; the deletion after an error names \<^verbatim>\<open>`${method}_${params}`\<close>.
  \<open>getCall_store_effect_run\<close> below is the effect with its dependency array.
\<close>

definition getCall_store_effect ::
    "(int \<Rightarrow> string) \<Rightarrow> string \<Rightarrow> (string \<times> json) list option \<Rightarrow> lastModifiedHint option \<Rightarrow>
     swrResponse \<Rightarrow> lastFetched \<Rightarrow> int \<Rightarrow> int \<Rightarrow> table \<Rightarrow> js_exn + table" where
  "getCall_store_effect fmt method params lastModified swr lastFetchedData now now' indexdb =
     (case swr_data swr of
        Some d \<Rightarrow>
          if truthy d then
            (case (case lastModified of
                     None \<Rightarrow> Inr (fmt now')
                   | Some h \<Rightarrow>
                       if hint_truthy (Some h) then checkTypeOfDate fmt h else Inr (fmt now')) of
               Inl e \<Rightarrow> Inl e
             | Inr m \<Rightarrow>
                 Inr (table_put indexdb
                        \<lparr> lf_id = getCall_id method params,
                          lf_name = Some (getCall_id method params), lf_doctype = method,
                          lastFetchedOn = now, lf_modified = Some (JStr m),
                          lf_count = Some 1, lf_data = spread d \<rparr>))
          else if swr_error swr \<noteq> None \<and> lastFetchExist lastFetchedData
               then Inr (table_delete indexdb (method @ ''_'' @ tmpl_obj params))
          else Inr indexdb
      | None \<Rightarrow>
          if swr_error swr \<noteq> None \<and> lastFetchExist lastFetchedData
          then Inr (table_delete indexdb (method @ ''_'' @ tmpl_obj params))
          else Inr indexdb)"

text \<open>The second effect as React runs it, with the dependency array \<^verbatim>\<open>[data]\<close>.\<close>

definition getCall_store_effect_run ::
    "json option option \<Rightarrow> (int \<Rightarrow> string) \<Rightarrow> string \<Rightarrow> (string \<times> json) list option \<Rightarrow>
     lastModifiedHint option \<Rightarrow> swrResponse \<Rightarrow> lastFetched \<Rightarrow> int \<Rightarrow> int \<Rightarrow> table \<Rightarrow>
     js_exn + table" where
  "getCall_store_effect_run prevData fmt method params lastModified swr lastFetchedData now now'
       indexdb =
     (if deps_changed prevData (swr_data swr)
      then getCall_store_effect fmt method params lastModified swr lastFetchedData now now'
             indexdb
      else Inr indexdb)"

text \<open>
  \<^verbatim>\<open>forceDelete\<close> of the call hook (lines 1935 to 1940): the new value of
  \<^verbatim>\<open>shouldLoad\<close> and the table. It names the composite key.
\<close>

definition getCall_forceDelete ::
    "string \<Rightarrow> (string \<times> json) list option \<Rightarrow> lastFetched \<Rightarrow> table \<Rightarrow> bool \<times> table" where
  "getCall_forceDelete method params lastFetchedData indexdb =
     (False,
      if lastFetchExist lastFetchedData
      then table_delete indexdb
             (method @ ''_'' @ encodeQueryData (case params of None \<Rightarrow> [] | Some ps \<Rightarrow> ps))
      else indexdb)"

text \<open>The returned object (lines 1944 to 1952).\<close>

definition useFrappeGetCallOffline :: "lastFetched \<Rightarrow> bool \<Rightarrow> swrResponse \<Rightarrow> hookResult" where
  "useFrappeGetCallOffline lastFetchedData shouldLoad swr =
     \<lparr> isLoadedFromServer = shouldLoad,
       data = (if shouldLoad then swr_data swr
               else (case lastFetchedData of LRec r \<Rightarrow> Some (lf_data r) | _ \<Rightarrow> None)),
       error = map_option FetchError (swr_error swr),
       isLoading = (if shouldLoad then swr_isLoading swr else lastFetchedData = LUndefined),
       isValidating = (if shouldLoad then swr_isValidating swr else False) \<rparr>"

subsection \<open>Concrete values\<close>

text \<open>
  A table with one record of each kind, and answers of the fetching hook, for evaluating
  the hooks. The timestamps are those of a host in UTC: the document was fetched on
  2024-01-01 at 10:00:00, the list on 2024-01-03 at 00:00:00, the call on 2024-01-15 at
  00:00:00.
\<close>

definition ex_doc :: json where
  "ex_doc = JObj [(''name'', JStr ''alice''), (''modified'', JStr ''2024-01-01 10:00:00''),
                  (''full_name'', JStr ''Alice'')]"

definition ex_doc_rec :: lastFetchType where
  "ex_doc_rec =
     \<lparr> lf_id = ''User_alice'', lf_name = Some ''alice'', lf_doctype = ''User'',
       lastFetchedOn = 1704103200000, lf_modified = Some (JStr ''2024-01-01 10:00:00''),
       lf_count = Some 1, lf_data = ex_doc \<rparr>"

definition ex_rows :: json where
  "ex_rows = JArr [JObj [(''name'', JStr ''T1'')], JObj [(''name'', JStr ''T2'')]]"

definition ex_list_rec :: lastFetchType where
  "ex_list_rec =
     \<lparr> lf_id = ''Task_limit=5&'', lf_name = Some ''Task_limit=5&'', lf_doctype = ''Task'',
       lastFetchedOn = 1704240000000, lf_modified = Some (JStr ''2024-01-01 10:00:00''),
       lf_count = Some 5, lf_data = spread ex_rows \<rparr>"

definition ex_call_rec :: lastFetchType where
  "ex_call_rec =
     \<lparr> lf_id = ''report.totals_year=2023'', lf_name = Some ''report.totals_year=2023'',
       lf_doctype = ''report.totals'', lastFetchedOn = 1705276800000,
       lf_modified = Some (JStr ''2024-01-15 00:00:00''), lf_count = Some 1,
       lf_data = JObj [(''message'', JNum 42)] \<rparr>"

definition ex_table :: table where
  "ex_table = [''User_alice'' \<mapsto> ex_doc_rec, ''Task_limit=5&'' \<mapsto> ex_list_rec,
               ''report.totals_year=2023'' \<mapsto> ex_call_rec]"

text \<open>
  A list record as the second effect writes it when the server stamps its rows in a time
  zone ahead of the host's: the latest row was modified at 05:30:00 server time on
  2024-01-03, and the list was fetched at 00:10:00 UTC on that day.
\<close>

definition ex_skew_rec :: lastFetchType where
  "ex_skew_rec =
     \<lparr> lf_id = ''Note_limit=5&'', lf_name = Some ''Note_limit=5&'', lf_doctype = ''Note'',
       lastFetchedOn = 1704240600000,
       lf_modified = Some (JStr ''2024-01-03 05:30:00.123456''),
       lf_count = Some 5, lf_data = spread ex_rows \<rparr>"

definition ex_skew_table :: table where
  "ex_skew_table = [''Note_limit=5&'' \<mapsto> ex_skew_rec]"

definition swr_idle :: swrResponse where
  "swr_idle = \<lparr> swr_data = None, swr_error = None, swr_isLoading = False,
                 swr_isValidating = False \<rparr>"


definition swr_failed :: swrResponse where
  "swr_failed = \<lparr> swr_data = None, swr_error = Some ''Network Error'', swr_isLoading = False,
                   swr_isValidating = False \<rparr>"

definition swr_done :: "json \<Rightarrow> swrResponse" where
  "swr_done d = \<lparr> swr_data = Some d, swr_error = None, swr_isLoading = False,
                   swr_isValidating = False \<rparr>"

section \<open>Properties\<close>

subsection \<open>Reading the table and evaluating the concrete values\<close>

lemma getLastFetched_rec:
  "table_get indexdb (d @ ''_'' @ tmpl n) = Some r \<Longrightarrow> getLastFetched indexdb d n = LRec r"
  by (simp add: getLastFetched_def)

lemma lastFetchExist_simps [simp]:
  "lastFetchExist (LRec r)" "\<not> lastFetchExist LNull" "\<not> lastFetchExist LUndefined"
  by (simp_all add: lastFetchExist_def)

lemma table_get_put [simp]: "table_get (table_put tbl r) (lf_id r) = Some r"
  by (simp add: table_get_def table_put_def)

lemma table_get_delete [simp]: "table_get (table_delete tbl k) k = None"
  by (simp add: table_get_def table_delete_def)

lemma table_get_delete_other: "k' \<noteq> k \<Longrightarrow> table_get (table_delete tbl k) k' = table_get tbl k'"
  by (simp add: table_get_def table_delete_def)

lemma ex_table_doc: "table_get ex_table (getDoc_id ''User'' (Some ''alice'')) = Some ex_doc_rec"
  by (simp add: table_get_def ex_table_def getDoc_id_def tmpl_def)

lemma ex_table_list: "table_get ex_table (getDocList_id ''Task'' ''limit=5&'') = Some ex_list_rec"
  by (simp add: table_get_def ex_table_def getDocList_id_def)

lemma ex_call_id:
  "getCall_id ''report.totals'' (Some [(''year'', JNum 2023)]) = ''report.totals_year=2023''"
  by code_simp

lemma ex_table_call:
  "table_get ex_table (getCall_id ''report.totals'' (Some [(''year'', JNum 2023)]))
     = Some ex_call_rec"
  by (simp add: ex_call_id) (simp add: table_get_def ex_table_def)


lemma ex_lastFetched_list: "getLastFetched ex_table ''Task'' (Some ''limit=5&'') = LRec ex_list_rec"
  using ex_table_list by (simp add: getDocList_id_def getLastFetched_rec tmpl_def)

lemma ex_lastFetched_call:
  "getLastFetched ex_table ''report.totals'' (Some (encodeQueryData [(''year'', JNum 2023)]))
     = LRec ex_call_rec"
  using ex_table_call by (simp add: getCall_id_def getLastFetched_rec tmpl_def)

lemma ms_2024_01_01: "convertDateToMiliseconds utcDate ''2024-01-01 10:00:00'' = Inr (Some 1704103200000)"
  by code_simp

lemma ms_2024_01_02: "convertDateToMiliseconds utcDate ''2024-01-02 09:00:00'' = Inr (Some 1704186000000)"
  by code_simp

lemma ms_2024_01_10: "convertDateToMiliseconds utcDate ''2024-01-10 00:00:00'' = Inr (Some 1704844800000)"
  by code_simp

lemma ms_2024_02_01: "convertDateToMiliseconds utcDate ''2024-02-01 00:00:00'' = Inr (Some 1706745600000)"
  by code_simp

lemma convert_no_time: "convertDateToMiliseconds newDate ''2024-02-01'' = Inl TypeError"
  by (simp add: convertDateToMiliseconds_def nth_opt_def)

lemma convert_empty: "convertDateToMiliseconds newDate [] = Inl TypeError"
  by (simp add: convertDateToMiliseconds_def nth_opt_def)

subsection \<open>A cache hit\<close>

lemma getDoc_cache_hit:
  assumes "table_get indexdb (getDoc_id doctype name) = Some r"
    and "lastFetched = getLastFetched indexdb doctype name"
    and "modified = Some (Some m)" and "lf_modified r = Some (JStr m)"
  shows "\<exists>db'. getDoc_staleness_effect doctype name hasPermission lastFetched modified False indexdb
             = (False, db')"
    and "getDoc_fetch_key False hasPermission = KeyNull"
    and "data (useFrappeGetDocOffline doctype hasPermission lastFetched False swr) = Some (lf_data r)"
proof -
  from assms(1,2) have lf: "lastFetched = LRec r"
    by (simp add: getDoc_id_def getLastFetched_rec)
  show "\<exists>db'. getDoc_staleness_effect doctype name hasPermission lastFetched modified False indexdb
             = (False, db')"
    using lf assms(3,4) by (simp add: getDoc_staleness_effect_def modified_of_def)
  show "getDoc_fetch_key False hasPermission = KeyNull"
    by (simp add: getDoc_fetch_key_def)
  show "data (useFrappeGetDocOffline doctype hasPermission lastFetched False swr) = Some (lf_data r)"
    using lf by (simp add: useFrappeGetDocOffline_def)
qed

lemma getDocList_cache_hit:
  assumes "table_get indexdb (getDocList_id doctype q) = Some r"
    and "lastFetchedList = getLastFetched indexdb doctype (Some q)"
    and "listCount = Some c" and "lf_count r = Some c"
    and "modified = Some rows"
    and "rows = [] \<or> (\<exists>t. convertDateToMiliseconds newDate (hd rows) = Inr t
                          \<and> \<not> js_gt t (Some (lastFetchedOn r)))"
  shows "\<exists>db'. getDocList_staleness_effect newDate doctype q hasPermission lastFetchedList listCount
               modified False indexdb = Inr (False, db')"
    and "getDocList_fetch_key False hasPermission = KeyNull"
    and "data (useFrappeGetDocListOffline doctype hasPermission lastFetchedList False swr)
           = Some (lf_data r)"
proof -
  from assms(1,2) have lf: "lastFetchedList = LRec r"
    by (simp add: getDocList_id_def getLastFetched_rec tmpl_def)
  show "\<exists>db'. getDocList_staleness_effect newDate doctype q hasPermission lastFetchedList listCount
               modified False indexdb = Inr (False, db')"
    using lf assms(3-6)
    by (cases rows) (auto simp add: getDocList_staleness_effect_def)
  show "getDocList_fetch_key False hasPermission = KeyNull"
    by (simp add: getDocList_fetch_key_def)
  show "data (useFrappeGetDocListOffline doctype hasPermission lastFetchedList False swr)
           = Some (lf_data r)"
    using lf by (simp add: useFrappeGetDocListOffline_def)
qed

lemma getCall_cache_hit:
  assumes "table_get indexdb (getCall_id method params) = Some r"
    and "lastFetchedData = getLastFetched indexdb method
            (Some (encodeQueryData (case params of None \<Rightarrow> [] | Some ps \<Rightarrow> ps)))"
    and "\<not> hint_truthy lastModified \<or>
         (\<exists>h t. lastModified = Some h \<and> convertDateToMilisecondsForGetCall newDate h = Inr t
                 \<and> \<not> js_gt t (Some (lastFetchedOn r)))"
  shows "getCall_staleness_effect newDate lastFetchedData lastModified False = Inr False"
    and "getCall_fetch_key False = KeyNull"
    and "data (useFrappeGetCallOffline lastFetchedData False swr) = Some (lf_data r)"
proof -
  from assms(1,2) have lf: "lastFetchedData = LRec r"
    by (simp add: getCall_id_def getLastFetched_rec tmpl_def)
  show "getCall_staleness_effect newDate lastFetchedData lastModified False = Inr False"
    using lf assms(3)
    by (auto simp add: getCall_staleness_effect_def split: option.splits)
  show "getCall_fetch_key False = KeyNull"
    by (simp add: getCall_fetch_key_def)
  show "data (useFrappeGetCallOffline lastFetchedData False swr) = Some (lf_data r)"
    using lf by (simp add: useFrappeGetCallOffline_def)
qed

lemma ms_skew_row:
  "convertDateToMiliseconds utcDate ''2024-01-03 05:30:00.123456'' = Inr (Some 1704259800000)"
  by code_simp

text \<open>
  Claim C1, evaluated on the list hook. The record of the list \<^verbatim>\<open>Note\<close> is in the
  table and the hook holds it; its count is 5 and its stored \<^verbatim>\<open>modified\<close> is
  \<^verbatim>\<open>2024-01-03 05:30:00.123456\<close>. The count call answers 5 and the one-row query answers
  a row with that same \<^verbatim>\<open>modified\<close>, so the signal shows no change. The effect
  compares the row with \<^verbatim>\<open>lastFetchedOn\<close> of the record, which is earlier, sets
  \<^verbatim>\<open>shouldLoad\<close>, and the full list fetch is given a key. (On an unchanged signal the
  document hook, which compares with the stored \<^verbatim>\<open>modified\<close>, sets nothing:
  \<open>getDoc_cache_hit\<close>.)
\<close>

theorem unchanged_list_signal_fetches:
  "table_get ex_skew_table (getDocList_id ''Note'' ''limit=5&'') = Some ex_skew_rec
   \<and> getLastFetched ex_skew_table ''Note'' (Some ''limit=5&'') = LRec ex_skew_rec
   \<and> lf_count ex_skew_rec = Some 5
   \<and> lf_modified ex_skew_rec = Some (JStr ''2024-01-03 05:30:00.123456'')
   \<and> getDocList_staleness_effect utcDate ''Note'' ''limit=5&'' (Some True) (LRec ex_skew_rec)
        (Some 5) (Some [''2024-01-03 05:30:00.123456'']) False ex_skew_table
       = Inr (True, ex_skew_table)
   \<and> getDocList_fetch_key True (Some True) = KeyUndefined"
proof -
  have tbl: "table_get ex_skew_table (getDocList_id ''Note'' ''limit=5&'') = Some ex_skew_rec"
    by (simp add: table_get_def ex_skew_table_def getDocList_id_def)
  then have lf: "getLastFetched ex_skew_table ''Note'' (Some ''limit=5&'') = LRec ex_skew_rec"
    by (simp add: getDocList_id_def getLastFetched_rec tmpl_def)
  have cnt: "lf_count ex_skew_rec = Some 5"
    and stored: "lf_modified ex_skew_rec = Some (JStr ''2024-01-03 05:30:00.123456'')"
    and fetched: "lastFetchedOn ex_skew_rec = 1704240600000"
    by (simp_all add: ex_skew_rec_def)
  have eff: "getDocList_staleness_effect utcDate ''Note'' ''limit=5&'' (Some True)
        (LRec ex_skew_rec) (Some 5) (Some [''2024-01-03 05:30:00.123456'']) False ex_skew_table
       = Inr (True, ex_skew_table)"
    by (simp add: getDocList_staleness_effect_def cnt fetched ms_skew_row js_gt_def)
  have key: "getDocList_fetch_key True (Some True) = KeyUndefined"
    by (simp add: getDocList_fetch_key_def)
  from tbl lf cnt stored eff key show ?thesis by simp
qed

theorem unchanged_list_signal_fetches_witness:
  "getDocList_staleness_effect utcDate ''Note'' ''limit=5&'' (Some True) (LRec ex_skew_rec)
     (Some 5) (Some [''2024-01-03 05:30:00.123456'']) False ex_skew_table
     = Inr (True, ex_skew_table)"
  using unchanged_list_signal_fetches by simp

subsection \<open>Permission denied\<close>










subsection \<open>The staleness decision for a document\<close>

lemma getDoc_staleness_granted:
  "getDoc_staleness_effect doctype name (Some True) lastFetched modified False indexdb
     = (lastFetched = LUndefined
          \<or> (\<exists>r m. lastFetched = LRec r \<and> modified = Some (Some m) \<and> m \<noteq> []
                    \<and> Some (JStr m) \<noteq> lf_modified r)
          \<or> (\<exists>r. lastFetched = LRec r \<and> modified = Some None),
        indexdb)"
proof (cases lastFetched)
  case LNull
  then show ?thesis by (simp add: getDoc_staleness_effect_def)
next
  case LUndefined
  then show ?thesis by (simp add: getDoc_staleness_effect_def)
next
  case (LRec r)
  then show ?thesis
    by (cases modified)
       (auto simp add: getDoc_staleness_effect_def modified_of_def split: option.splits)
qed

text \<open>
  Claim C3, as the code has it. With the read permission granted and \<^verbatim>\<open>shouldLoad\<close>
  still \<^verbatim>\<open>false\<close>, the effect of the document hook sets \<^verbatim>\<open>shouldLoad\<close> exactly when
  the table has answered that there is no record; or a record is held and the timestamp
  call has answered a \<^verbatim>\<open>modified\<close> that is a non-empty string different (by \<^verbatim>\<open>!==\<close>)
  from the stored one; or a record is held and the answer has no \<^verbatim>\<open>modified\<close>. An
  empty string is falsy and sets nothing. The table is left as it is.
\<close>

theorem document_staleness_decision:
  "(fst (getDoc_staleness_effect doctype name (Some True) lastFetched modified False indexdb)
      = True)
     = (lastFetched = LUndefined
          \<or> (\<exists>r m. lastFetched = LRec r \<and> modified = Some (Some m) \<and> m \<noteq> []
                    \<and> Some (JStr m) \<noteq> lf_modified r)
          \<or> (\<exists>r. lastFetched = LRec r \<and> modified = Some None))
   \<and> snd (getDoc_staleness_effect doctype name (Some True) lastFetched modified False indexdb)
       = indexdb"
  by (simp add: getDoc_staleness_granted)

theorem document_staleness_decision_witness:
  "fst (getDoc_staleness_effect ''User'' (Some ''alice'') (Some True) (LRec ex_doc_rec)
          (Some (Some ''2024-03-05 08:00:00'')) False ex_table) = True
   \<and> fst (getDoc_staleness_effect ''User'' (Some ''alice'') (Some True) (LRec ex_doc_rec)
          (Some None) False ex_table) = True
   \<and> fst (getDoc_staleness_effect ''User'' (Some ''bob'') (Some True) LUndefined
          None False ex_table) = True
   \<and> fst (getDoc_staleness_effect ''User'' (Some ''alice'') (Some True) (LRec ex_doc_rec)
          (Some (Some ''2024-01-01 10:00:00'')) False ex_table) = False"
  using document_staleness_decision
      [of "''User''" "Some ''alice''" "LRec ex_doc_rec" "Some (Some ''2024-03-05 08:00:00'')"
          ex_table]
    document_staleness_decision
      [of "''User''" "Some ''alice''" "LRec ex_doc_rec" "Some None" ex_table]
    document_staleness_decision
      [of "''User''" "Some ''bob''" LUndefined None ex_table]
    document_staleness_decision
      [of "''User''" "Some ''alice''" "LRec ex_doc_rec" "Some (Some ''2024-01-01 10:00:00'')"
          ex_table]
  by (simp add: ex_doc_rec_def)

theorem document_empty_signal_counterexample:
  "fst (getDoc_staleness_effect ''User'' (Some ''alice'') (Some True) (LRec ex_doc_rec)
          (Some (Some '''')) False ex_table) = False
   \<and> Some (JStr '''') \<noteq> lf_modified ex_doc_rec"
  by (simp add: getDoc_staleness_effect_def modified_of_def ex_doc_rec_def)

subsection \<open>The staleness decision for a list\<close>

lemma getDocList_count_differs:
  assumes "listCount = Some c" and "Some c \<noteq> lf_count r"
  shows "getDocList_staleness_effect newDate doctype q (Some True) (LRec r) listCount modified
           shouldLoad indexdb = Inr (True, indexdb)"
  using assms by (simp add: getDocList_staleness_effect_def)

lemma getDocList_count_same:
  assumes "listCount = lf_count r"
  shows "getDocList_staleness_effect newDate doctype q (Some True) (LRec r) listCount modified
           shouldLoad indexdb
         = (case modified of
              None \<Rightarrow> Inr (shouldLoad, indexdb)
            | Some [] \<Rightarrow> Inr (shouldLoad, indexdb)
            | Some (row # rows) \<Rightarrow>
                (case convertDateToMiliseconds newDate row of
                   Inl e \<Rightarrow> Inl e
                 | Inr t \<Rightarrow>
                     if js_gt t (Some (lastFetchedOn r)) then Inr (True, indexdb)
                     else Inr (shouldLoad, indexdb)))"
  using assms by (simp add: getDocList_staleness_effect_def split: option.splits)

lemma getDocList_modified_key_iff:
  "(getDocList_modified_key (LRec r) listCount = KeyUndefined)
     = (\<exists>c. listCount = Some c \<and> lf_count r = Some c)"
  by (auto simp add: getDocList_modified_key_def countNotChanged_def)

lemma getDocList_newer_iff:
  assumes "listCount = lf_count r"
  shows "(getDocList_staleness_effect newDate doctype q (Some True) (LRec r) listCount modified
            False indexdb = Inr (True, indexdb))
         = (\<exists>row rows t. modified = Some (row # rows)
              \<and> convertDateToMiliseconds newDate row = Inr (Some t) \<and> lastFetchedOn r < t)"
proof (cases modified)
  case None
  with assms show ?thesis by (simp add: getDocList_count_same)
next
  case (Some rs)
  show ?thesis
  proof (cases rs)
    case Nil
    with Some assms show ?thesis by (simp add: getDocList_count_same)
  next
    case (Cons row rows)
    with Some assms show ?thesis
      by (cases "convertDateToMiliseconds newDate row")
         (auto simp add: getDocList_count_same js_gt_def split: option.splits)
  qed
qed

text \<open>
  The two stages of the list hook as the effect has them, with the read permission
  granted and a record held: a different count sets \<^verbatim>\<open>shouldLoad\<close>; the one-row query
  is given a key only when the count call has answered the stored count; its row's
  timestamp, converted to milliseconds, is compared with \<^verbatim>\<open>lastFetchedOn\<close> of the
  record.
\<close>

lemma list_staleness_two_stage:
  "(listCount = Some c \<and> Some c \<noteq> lf_count r
    \<longrightarrow> getDocList_staleness_effect newDate doctype q (Some True) (LRec r) listCount modified
          False indexdb = Inr (True, indexdb))
   \<and> (getDocList_modified_key (LRec r) listCount = KeyUndefined)
       = (\<exists>c. listCount = Some c \<and> lf_count r = Some c)
   \<and> (listCount = Some c \<and> lf_count r = Some c
      \<longrightarrow> (getDocList_staleness_effect newDate doctype q (Some True) (LRec r) listCount
              modified False indexdb = Inr (True, indexdb))
          = (\<exists>row rows t. modified = Some (row # rows)
               \<and> convertDateToMiliseconds newDate row = Inr (Some t) \<and> lastFetchedOn r < t))
   \<and> (listCount = Some c \<and> lf_count r = Some c \<and> modified = Some (row # rows)
        \<and> convertDateToMiliseconds newDate row = Inr t \<and> \<not> js_gt t (Some (lastFetchedOn r))
      \<longrightarrow> getDocList_staleness_effect newDate doctype q (Some True) (LRec r) listCount
            modified False indexdb = Inr (False, indexdb)
          \<and> getDocList_fetch_key False (Some True) = KeyNull)"
proof (intro conjI impI)
  assume "listCount = Some c \<and> Some c \<noteq> lf_count r"
  then show "getDocList_staleness_effect newDate doctype q (Some True) (LRec r) listCount
      modified False indexdb = Inr (True, indexdb)"
    by (simp add: getDocList_count_differs)
next
  show "(getDocList_modified_key (LRec r) listCount = KeyUndefined)
       = (\<exists>c. listCount = Some c \<and> lf_count r = Some c)"
    by (rule getDocList_modified_key_iff)
next
  assume "listCount = Some c \<and> lf_count r = Some c"
  then have "listCount = lf_count r" by simp
  then show "(getDocList_staleness_effect newDate doctype q (Some True) (LRec r) listCount
              modified False indexdb = Inr (True, indexdb))
          = (\<exists>row rows t. modified = Some (row # rows)
               \<and> convertDateToMiliseconds newDate row = Inr (Some t) \<and> lastFetchedOn r < t)"
    by (rule getDocList_newer_iff)
next
  assume h: "listCount = Some c \<and> lf_count r = Some c \<and> modified = Some (row # rows)
        \<and> convertDateToMiliseconds newDate row = Inr t \<and> \<not> js_gt t (Some (lastFetchedOn r))"
  then have "listCount = lf_count r" by simp
  with h show "getDocList_staleness_effect newDate doctype q (Some True) (LRec r) listCount
            modified False indexdb = Inr (False, indexdb)"
    by (simp add: getDocList_count_same)
next
  show "getDocList_fetch_key False (Some True) = KeyNull"
    by (simp add: getDocList_fetch_key_def)
qed

text \<open>
  Claim C4, evaluated on the list hook. The record of the list \<^verbatim>\<open>Task\<close> has the count
  5, the stored \<^verbatim>\<open>modified\<close> \<^verbatim>\<open>2024-01-01 10:00:00\<close> and was fetched on 2024-01-03 at
  00:00:00. The count call answers 5 and the one-row query answers a row modified on
  2024-01-02 at 09:00:00, strictly newer than the stored \<^verbatim>\<open>modified\<close>. The effect
  compares the row with \<^verbatim>\<open>lastFetchedOn\<close> instead, leaves \<^verbatim>\<open>shouldLoad\<close> at
  \<^verbatim>\<open>false\<close>, and the full list fetch is given the key \<^verbatim>\<open>null\<close>.
\<close>

theorem list_newer_row_not_stale:
  "lf_count ex_list_rec = Some 5
   \<and> lf_modified ex_list_rec = Some (JStr ''2024-01-01 10:00:00'')
   \<and> convertDateToMiliseconds utcDate ''2024-01-01 10:00:00'' = Inr (Some 1704103200000)
   \<and> convertDateToMiliseconds utcDate ''2024-01-02 09:00:00'' = Inr (Some 1704186000000)
   \<and> (1704103200000 :: int) < 1704186000000
   \<and> getDocList_modified_key (LRec ex_list_rec) (Some 5) = KeyUndefined
   \<and> getDocList_staleness_effect utcDate ''Task'' ''limit=5&'' (Some True) (LRec ex_list_rec)
        (Some 5) (Some [''2024-01-02 09:00:00'']) False ex_table = Inr (False, ex_table)
   \<and> getDocList_fetch_key False (Some True) = KeyNull"
proof -
  have cnt: "Some 5 = lf_count ex_list_rec" and fetched: "lastFetchedOn ex_list_rec = 1704240000000"
    and stored: "lf_modified ex_list_rec = Some (JStr ''2024-01-01 10:00:00'')"
    by (simp_all add: ex_list_rec_def)
  have "getDocList_staleness_effect utcDate ''Task'' ''limit=5&'' (Some True) (LRec ex_list_rec)
        (Some 5) (Some [''2024-01-02 09:00:00'']) False ex_table = Inr (False, ex_table)"
    by (simp add: getDocList_count_same [OF cnt] ms_2024_01_02 js_gt_def fetched)
  moreover have "getDocList_modified_key (LRec ex_list_rec) (Some 5) = KeyUndefined"
    using cnt [symmetric] by (simp add: getDocList_modified_key_iff)
  ultimately show ?thesis
    using cnt stored by (simp add: ms_2024_01_01 ms_2024_01_02 getDocList_fetch_key_def)
qed

theorem list_newer_row_not_stale_witness:
  "getDocList_staleness_effect utcDate ''Task'' ''limit=5&'' (Some True) (LRec ex_list_rec)
     (Some 5) (Some [''2024-01-02 09:00:00'']) False ex_table = Inr (False, ex_table)"
  using list_newer_row_not_stale by simp

subsection \<open>The staleness decision for a call\<close>

lemma hint_string_ms:
  "convertDateToMilisecondsForGetCall newDate h = Inr (Some t) \<Longrightarrow> hint_truthy (Some h)"
  by (cases h)
     (auto simp add: convertDateToMilisecondsForGetCall_def hint_truthy_def convert_empty)

lemma getCall_stale_iff:
  "(getCall_staleness_effect newDate lastFetchedData lastModified False = Inr True)
     = (lastFetchedData = LUndefined
          \<or> (\<exists>r h t. lastFetchedData = LRec r \<and> lastModified = Some h
                \<and> convertDateToMilisecondsForGetCall newDate h = Inr (Some t)
                \<and> lastFetchedOn r < t))"
proof (cases lastFetchedData)
  case LNull
  then show ?thesis by (simp add: getCall_staleness_effect_def)
next
  case LUndefined
  then show ?thesis by (simp add: getCall_staleness_effect_def)
next
  case (LRec r)
  show ?thesis
  proof (cases lastModified)
    case None
    with LRec show ?thesis by (simp add: getCall_staleness_effect_def)
  next
    case (Some h)
    show ?thesis
    proof (cases "hint_truthy (Some h)")
      case False
      with hint_string_ms [of newDate h] have "\<nexists>t. convertDateToMilisecondsForGetCall newDate h = Inr (Some t)"
        by blast
      with LRec Some False show ?thesis
        by (simp add: getCall_staleness_effect_def)
    next
      case True
      with LRec Some show ?thesis
        by (cases "convertDateToMilisecondsForGetCall newDate h")
           (auto simp add: getCall_staleness_effect_def js_gt_def split: option.splits)
    qed
  qed
qed

lemma getCall_date_only_hint_throws:
  "getCall_staleness_effect newDate (LRec r) (Some (HintString ''2024-02-01'')) shouldLoad
     = Inl TypeError"
  by (simp add: getCall_staleness_effect_def hint_truthy_def
        convertDateToMilisecondsForGetCall_def convert_no_time)

lemma getCall_readme_hint_throws:
  "getCall_staleness_effect newDate (LRec r) (Some (HintString ''2021-10-09'')) shouldLoad
     = Inl TypeError"
  by (simp add: getCall_staleness_effect_def hint_truthy_def
        convertDateToMilisecondsForGetCall_def convertDateToMiliseconds_def nth_opt_def)

text \<open>
  Claim C5, evaluated on the call hook. The record of the call was fetched on 2024-01-15
  at 00:00:00 and the caller supplies the hint \<^verbatim>\<open>2024-02-01\<close>, a later date. The
  conversion of the hint throws a \<^verbatim>\<open>TypeError\<close> inside the effect, for every record
  and every host, because the string has no time part; \<^verbatim>\<open>shouldLoad\<close> is not set. The
  same date with a time part makes the record stale.
\<close>

theorem call_date_only_hint_throws:
  "getCall_staleness_effect newDate (LRec r) (Some (HintString ''2024-02-01'')) shouldLoad
     = Inl TypeError
   \<and> lastFetchedOn ex_call_rec = 1705276800000
   \<and> convertDateToMiliseconds utcDate ''2024-01-15 00:00:00'' = Inr (Some 1705276800000)
   \<and> getCall_staleness_effect utcDate (LRec ex_call_rec) (Some (HintString ''2024-02-01''))
        False = Inl TypeError
   \<and> getCall_staleness_effect utcDate (LRec ex_call_rec)
        (Some (HintString ''2024-02-01 00:00:00'')) False = Inr True"
proof -
  have fetched: "lastFetchedOn ex_call_rec = 1705276800000"
    by (simp add: ex_call_rec_def)
  have day: "convertDateToMiliseconds utcDate ''2024-01-15 00:00:00'' = Inr (Some 1705276800000)"
    by code_simp
  have later: "convertDateToMilisecondsForGetCall utcDate (HintString ''2024-02-01 00:00:00'')
      = Inr (Some 1706745600000)"
    by (simp add: convertDateToMilisecondsForGetCall_def ms_2024_02_01)
  have stale: "getCall_staleness_effect utcDate (LRec ex_call_rec)
        (Some (HintString ''2024-02-01 00:00:00'')) False = Inr True"
    by (simp add: getCall_stale_iff later fetched)
  from fetched day stale show ?thesis
    by (simp add: getCall_date_only_hint_throws)
qed

theorem call_date_only_hint_throws_witness:
  "getCall_staleness_effect utcDate (LRec ex_call_rec) (Some (HintString ''2024-02-01'')) False
     = Inl TypeError"
  using call_date_only_hint_throws [of utcDate ex_call_rec False] by simp

subsection \<open>Writing the answer back\<close>

lemma getDoc_store_effect_data:
  assumes "swr_data swr = Some d" and "truthy d"
  shows "getDoc_store_effect doctype name swr lastFetched now indexdb
         = table_put indexdb
              \<lparr> lf_id = getDoc_id doctype name, lf_name = name, lf_doctype = doctype,
                lastFetchedOn = now, lf_modified = js_prop d ''modified'',
                lf_count = Some 1, lf_data = spread d \<rparr>"
  using assms by (simp add: getDoc_store_effect_def getDoc_id_def)

lemma getDocList_store_effect_data:
  assumes "swr_data swr = Some d" and "truthy d"
  shows "getDocList_store_effect fmt doctype q swr lastFetchedList listCount modified now now'
              indexdb
         = table_put indexdb
              \<lparr> lf_id = getDocList_id doctype q, lf_name = Some (getDocList_id doctype q),
                lf_doctype = doctype, lastFetchedOn = now,
                lf_modified =
                  Some (JStr (case modified of
                                Some (row # rows) \<Rightarrow> if row \<noteq> [] then row else fmt now'
                              | _ \<Rightarrow> fmt now')),
                lf_count = listCount, lf_data = spread d \<rparr>"
  using assms by (simp add: getDocList_store_effect_def getDocList_id_def)

lemma getDoc_store_effect_error:
  assumes "swr_data swr = None" and "swr_error swr = Some e" and "lastFetched = LRec r"
  shows "getDoc_store_effect doctype name swr lastFetched now indexdb
         = table_delete indexdb (getDoc_id doctype name)"
  using assms by (simp add: getDoc_store_effect_def getDoc_id_def)

lemma getDocList_store_effect_error:
  assumes "swr_data swr = None" and "swr_error swr = Some e" and "lastFetchedList = LRec r"
  shows "getDocList_store_effect fmt doctype q swr lastFetchedList listCount modified now now'
           indexdb
         = table_delete indexdb (getDocList_id doctype q)"
  using assms by (simp add: getDocList_store_effect_def getDocList_id_def)

lemma getCall_store_effect_error:
  assumes "swr_data swr = None" and "swr_error swr = Some e" and "lastFetchedData = LRec r"
  shows "getCall_store_effect fmt meth params lastModified swr lastFetchedData now now' indexdb
         = Inr (table_delete indexdb (meth @ ''_'' @ tmpl_obj params))"
  using assms by (simp add: getCall_store_effect_def)

lemma store_effect_error_no_record:
  assumes "swr_data swr = None" and "\<not> lastFetchExist lastFetched"
  shows "getDoc_store_effect doctype name swr lastFetched now indexdb = indexdb"
    and "getDocList_store_effect fmt doctype q swr lastFetched listCount modified now now' indexdb
           = indexdb"
    and "getCall_store_effect fmt meth params lastModified swr lastFetched now now' indexdb
           = Inr indexdb"
  using assms
  by (simp_all add: getDoc_store_effect_def getDocList_store_effect_def
        getCall_store_effect_def)

lemma getDocList_store_effect_spreads_array:
  "map_option lf_data
     (table_get (getDocList_store_effect fmt ''Task'' ''limit=5&'' (swr_done ex_rows)
                   lastFetchedList listCount modified now now' ex_table)
        (getDocList_id ''Task'' ''limit=5&''))
     = Some (JObj [(''0'', JObj [(''name'', JStr ''T1'')]), (''1'', JObj [(''name'', JStr ''T2'')])])"
proof -
  have "spread ex_rows
      = JObj [(''0'', JObj [(''name'', JStr ''T1'')]), (''1'', JObj [(''name'', JStr ''T2'')])]"
    by code_simp
  moreover have "swr_data (swr_done ex_rows) = Some ex_rows" and "truthy ex_rows"
    by (simp_all add: swr_done_def ex_rows_def)
  ultimately show ?thesis
    by (simp add: getDocList_store_effect_data table_get_def table_put_def)
qed

text \<open>
  Claim C6, as the code has it. When the full fetch of a document has delivered its
  object, the second effect writes the record under the composite key with the fetched
  payload as its \<^verbatim>\<open>data\<close>. In the document hook and in the list hook the record
  written after a fetch that delivered a truthy payload has as \<^verbatim>\<open>lastFetchedOn\<close> the
  reading of the clock at the write, so it is at least the \<^verbatim>\<open>lastFetchedOn\<close> of the
  record that was there before whenever the clock has not been set back in between; the
  code does not compare the two.
\<close>

theorem write_through_on_success:
  "(swr_data swr = Some (JObj kvs)
    \<longrightarrow> map_option lf_data
          (table_get (getDoc_store_effect doctype name swr lastFetched now indexdb)
             (getDoc_id doctype name)) = Some (JObj kvs)
        \<and> map_option lastFetchedOn
            (table_get (getDoc_store_effect doctype name swr lastFetched now indexdb)
               (getDoc_id doctype name)) = Some now)
   \<and> (swr_data swr = Some d \<and> truthy d
      \<longrightarrow> map_option lastFetchedOn
            (table_get (getDoc_store_effect doctype name swr lastFetched now indexdb)
               (getDoc_id doctype name)) = Some now
          \<and> map_option lastFetchedOn
              (table_get (getDocList_store_effect fmt doctype q swr lastFetched listCount
                            modified now now' indexdb) (getDocList_id doctype q)) = Some now)
   \<and> (swr_data swr = Some d \<and> truthy d
        \<and> table_get indexdb (getDoc_id doctype name) = Some r \<and> lastFetchedOn r \<le> now
      \<longrightarrow> (\<exists>r'. table_get (getDoc_store_effect doctype name swr lastFetched now indexdb)
                   (getDoc_id doctype name) = Some r'
                \<and> lastFetchedOn r \<le> lastFetchedOn r'))
   \<and> (swr_data swr = Some d \<and> truthy d
        \<and> table_get indexdb (getDocList_id doctype q) = Some r \<and> lastFetchedOn r \<le> now
      \<longrightarrow> (\<exists>r'. table_get (getDocList_store_effect fmt doctype q swr lastFetched listCount
                            modified now now' indexdb) (getDocList_id doctype q) = Some r'
                \<and> lastFetchedOn r \<le> lastFetchedOn r'))"
proof (intro conjI impI)
  assume h: "swr_data swr = Some (JObj kvs)"
  have t: "truthy (JObj kvs)" by simp
  from h t show "map_option lf_data
          (table_get (getDoc_store_effect doctype name swr lastFetched now indexdb)
             (getDoc_id doctype name)) = Some (JObj kvs)"
    by (simp add: getDoc_store_effect_data table_get_def table_put_def)
  from h t show "map_option lastFetchedOn
            (table_get (getDoc_store_effect doctype name swr lastFetched now indexdb)
               (getDoc_id doctype name)) = Some now"
    by (simp add: getDoc_store_effect_data table_get_def table_put_def)
next
  assume h: "swr_data swr = Some d \<and> truthy d"
  then show "map_option lastFetchedOn
            (table_get (getDoc_store_effect doctype name swr lastFetched now indexdb)
               (getDoc_id doctype name)) = Some now"
    by (simp add: getDoc_store_effect_data table_get_def table_put_def)
  from h show "map_option lastFetchedOn
              (table_get (getDocList_store_effect fmt doctype q swr lastFetched listCount
                            modified now now' indexdb) (getDocList_id doctype q)) = Some now"
    by (simp add: getDocList_store_effect_data table_get_def table_put_def)
next
  assume h: "swr_data swr = Some d \<and> truthy d
        \<and> table_get indexdb (getDoc_id doctype name) = Some r \<and> lastFetchedOn r \<le> now"
  then show "\<exists>r'. table_get (getDoc_store_effect doctype name swr lastFetched now indexdb)
                   (getDoc_id doctype name) = Some r'
                \<and> lastFetchedOn r \<le> lastFetchedOn r'"
    by (simp add: getDoc_store_effect_data table_get_def table_put_def)
next
  assume h: "swr_data swr = Some d \<and> truthy d
        \<and> table_get indexdb (getDocList_id doctype q) = Some r \<and> lastFetchedOn r \<le> now"
  then show "\<exists>r'. table_get (getDocList_store_effect fmt doctype q swr lastFetched listCount
                            modified now now' indexdb) (getDocList_id doctype q) = Some r'
                \<and> lastFetchedOn r \<le> lastFetchedOn r'"
    by (simp add: getDocList_store_effect_data table_get_def table_put_def)
qed

theorem write_through_on_success_witness:
  "map_option lf_data
     (table_get (getDoc_store_effect ''User'' (Some ''alice'') (swr_done ex_doc) (LRec ex_doc_rec)
                   1704200000000 ex_table) (getDoc_id ''User'' (Some ''alice''))) = Some ex_doc
   \<and> map_option lastFetchedOn
       (table_get (getDoc_store_effect ''User'' (Some ''alice'') (swr_done ex_doc)
                     (LRec ex_doc_rec) 1704200000000 ex_table)
          (getDoc_id ''User'' (Some ''alice''))) = Some 1704200000000
   \<and> (\<exists>r'. table_get (getDoc_store_effect ''User'' (Some ''alice'') (swr_done ex_doc)
                         (LRec ex_doc_rec) 1704200000000 ex_table)
              (getDoc_id ''User'' (Some ''alice'')) = Some r'
            \<and> lastFetchedOn ex_doc_rec \<le> lastFetchedOn r')
   \<and> (\<exists>r'. table_get (getDocList_store_effect (\<lambda>t. ''2024-01-05 00:00:00'') ''Task''
                         ''limit=5&'' (swr_done ex_rows) (LRec ex_list_rec) (Some 5) None
                         1704412800000 1704412800001 ex_table)
              (getDocList_id ''Task'' ''limit=5&'') = Some r'
            \<and> lastFetchedOn ex_list_rec \<le> lastFetchedOn r')"
proof -
  have doc_obj: "swr_data (swr_done ex_doc)
      = Some (JObj [(''name'', JStr ''alice''), (''modified'', JStr ''2024-01-01 10:00:00''),
                    (''full_name'', JStr ''Alice'')])"
    by (simp add: swr_done_def ex_doc_def)
  have doc_hyp: "swr_data (swr_done ex_doc) = Some ex_doc \<and> truthy ex_doc
      \<and> table_get ex_table (getDoc_id ''User'' (Some ''alice'')) = Some ex_doc_rec
      \<and> lastFetchedOn ex_doc_rec \<le> 1704200000000"
    by (simp add: ex_table_doc) (simp add: swr_done_def ex_doc_def ex_doc_rec_def)
  have list_hyp: "swr_data (swr_done ex_rows) = Some ex_rows \<and> truthy ex_rows
      \<and> table_get ex_table (getDocList_id ''Task'' ''limit=5&'') = Some ex_list_rec
      \<and> lastFetchedOn ex_list_rec \<le> 1704412800000"
    by (simp add: ex_table_list) (simp add: swr_done_def ex_rows_def ex_list_rec_def)
  note inst = write_through_on_success
      [where indexdb = ex_table and fmt = "\<lambda>t. ''2024-01-05 00:00:00''"
         and kvs = "[(''name'', JStr ''alice''), (''modified'', JStr ''2024-01-01 10:00:00''),
                     (''full_name'', JStr ''Alice'')]"
         and q = "''limit=5&''" and name = "Some ''alice''"]
  from inst [where doctype = "''User''" and swr = "swr_done ex_doc" and d = ex_doc
               and lastFetched = "LRec ex_doc_rec" and now = 1704200000000
               and now' = 1704200000000 and r = ex_doc_rec and listCount = None
               and modified = None]
    doc_hyp doc_obj
  have doc: "map_option lf_data
       (table_get (getDoc_store_effect ''User'' (Some ''alice'') (swr_done ex_doc)
                     (LRec ex_doc_rec) 1704200000000 ex_table)
          (getDoc_id ''User'' (Some ''alice''))) = Some ex_doc
     \<and> map_option lastFetchedOn
         (table_get (getDoc_store_effect ''User'' (Some ''alice'') (swr_done ex_doc)
                       (LRec ex_doc_rec) 1704200000000 ex_table)
            (getDoc_id ''User'' (Some ''alice''))) = Some 1704200000000
     \<and> (\<exists>r'. table_get (getDoc_store_effect ''User'' (Some ''alice'') (swr_done ex_doc)
                           (LRec ex_doc_rec) 1704200000000 ex_table)
                (getDoc_id ''User'' (Some ''alice'')) = Some r'
              \<and> lastFetchedOn ex_doc_rec \<le> lastFetchedOn r')"
    by (simp add: ex_doc_def)
  from inst [where doctype = "''Task''" and swr = "swr_done ex_rows" and d = ex_rows
               and lastFetched = "LRec ex_list_rec" and now = 1704412800000
               and now' = 1704412800001 and r = ex_list_rec and listCount = "Some 5"
               and modified = None]
    list_hyp
  have lst: "\<exists>r'. table_get (getDocList_store_effect (\<lambda>t. ''2024-01-05 00:00:00'') ''Task''
                         ''limit=5&'' (swr_done ex_rows) (LRec ex_list_rec) (Some 5) None
                         1704412800000 1704412800001 ex_table)
              (getDocList_id ''Task'' ''limit=5&'') = Some r'
            \<and> lastFetchedOn ex_list_rec \<le> lastFetchedOn r'"
    by simp
  from doc lst show ?thesis by simp
qed

theorem clock_set_back_counterexample:
  "table_get ex_table (getDoc_id ''User'' (Some ''alice'')) = Some ex_doc_rec
   \<and> lastFetchedOn ex_doc_rec = 1704103200000
   \<and> swr_data (swr_done ex_doc) = Some ex_doc
   \<and> map_option lastFetchedOn
       (table_get (getDoc_store_effect ''User'' (Some ''alice'') (swr_done ex_doc)
                     (LRec ex_doc_rec) 1704103100000 ex_table)
          (getDoc_id ''User'' (Some ''alice''))) = Some 1704103100000
   \<and> (1704103100000 :: int) < 1704103200000"
proof -
  have "swr_data (swr_done ex_doc) = Some ex_doc" and "truthy ex_doc"
    by (simp_all add: swr_done_def ex_doc_def)
  then have "map_option lastFetchedOn
       (table_get (getDoc_store_effect ''User'' (Some ''alice'') (swr_done ex_doc)
                     (LRec ex_doc_rec) 1704103100000 ex_table)
          (getDoc_id ''User'' (Some ''alice''))) = Some 1704103100000"
    by (simp add: getDoc_store_effect_data table_get_def table_put_def)
  then show ?thesis
    by (simp add: ex_table_doc) (simp add: swr_done_def ex_doc_rec_def)
qed

subsection \<open>A fetch that fails\<close>

lemma store_effect_run_data_unchanged:
  assumes "swr_data swr = None"
  shows "getDoc_store_effect_run (Some None) doctype name swr lastFetched now indexdb = indexdb"
    and "getDocList_store_effect_run (Some None) fmt doctype q swr lastFetched listCount
           modified now now' indexdb = indexdb"
    and "getCall_store_effect_run (Some None) fmt meth params lastModified swr lastFetched now
           now' indexdb = Inr indexdb"
  using assms
  by (simp_all add: getDoc_store_effect_run_def getDocList_store_effect_run_def
        getCall_store_effect_run_def deps_changed_def)

lemma store_effect_run_data_changed:
  assumes "prevData \<noteq> Some (swr_data swr)"
  shows "getDoc_store_effect_run prevData doctype name swr lastFetched now indexdb
           = getDoc_store_effect doctype name swr lastFetched now indexdb"
    and "getDocList_store_effect_run prevData fmt doctype q swr lastFetched listCount
           modified now now' indexdb
           = getDocList_store_effect fmt doctype q swr lastFetched listCount modified now now'
               indexdb"
    and "getCall_store_effect_run prevData fmt meth params lastModified swr lastFetched now
           now' indexdb
           = getCall_store_effect fmt meth params lastModified swr lastFetched now now' indexdb"
  using assms
  by (cases prevData;
      simp add: getDoc_store_effect_run_def getDocList_store_effect_run_def
        getCall_store_effect_run_def deps_changed_def)+

lemma call_error_effect_not_rerun:
  "getCall_store_effect_run (Some None) fmt ''report.totals'' (Some [(''year'', JNum 2023)])
     lastModified swr_failed (LRec ex_call_rec) now now' ex_table = Inr ex_table"
  by (simp add: store_effect_run_data_unchanged swr_failed_def)

lemma getCall_forceDelete_removes:
  "table_get (snd (getCall_forceDelete meth params (LRec r) indexdb)) (getCall_id meth params)
     = None"
  by (simp add: getCall_forceDelete_def getCall_id_def)

text \<open>
  Claim C7, evaluated on the call hook. The record of the call \<^verbatim>\<open>report.totals\<close> with
  the parameters \<^verbatim>\<open>{year: 2023}\<close> is in the table under
  \<^verbatim>\<open>report.totals_year=2023\<close>, the hook holds it, and the call fails. The second effect
  deletes the key \<^verbatim>\<open>report.totals_[object Object]\<close>, and the record is still in the
  table under its own key. With the dependency array \<^verbatim>\<open>[data]\<close> the effect is not even
  run again after the failure, since \<^verbatim>\<open>data\<close> stays \<^verbatim>\<open>undefined\<close>
  (\<open>call_error_effect_not_rerun\<close>). In the document hook and the list hook the same branch
  names the composite key (\<open>getDoc_store_effect_error\<close>,
  \<open>getDocList_store_effect_error\<close>), and so does \<^verbatim>\<open>forceDelete\<close> of the call hook
  (\<open>getCall_forceDelete_removes\<close>).
\<close>

theorem call_error_keeps_record:
  "getLastFetched ex_table ''report.totals'' (Some (encodeQueryData [(''year'', JNum 2023)]))
     = LRec ex_call_rec
   \<and> getCall_store_effect fmt ''report.totals'' (Some [(''year'', JNum 2023)]) lastModified
        swr_failed (LRec ex_call_rec) now now' ex_table
       = Inr (table_delete ex_table ''report.totals_[object Object]'')
   \<and> table_get (table_delete ex_table ''report.totals_[object Object]'')
        (getCall_id ''report.totals'' (Some [(''year'', JNum 2023)])) = Some ex_call_rec"
proof -
  have "getCall_store_effect fmt ''report.totals'' (Some [(''year'', JNum 2023)]) lastModified
        swr_failed (LRec ex_call_rec) now now' ex_table
       = Inr (table_delete ex_table (''report.totals'' @ ''_'' @ tmpl_obj (Some [(''year'', JNum 2023)])))"
    by (rule getCall_store_effect_error [where e = "''Network Error''" and r = ex_call_rec])
       (simp_all add: swr_failed_def)
  moreover have "table_get (table_delete ex_table ''report.totals_[object Object]'')
        (getCall_id ''report.totals'' (Some [(''year'', JNum 2023)])) = Some ex_call_rec"
    by (simp add: ex_call_id) (simp add: table_get_def table_delete_def ex_table_def)
  ultimately show ?thesis
    by (simp add: ex_lastFetched_call tmpl_obj_def)
qed

subsection \<open>The returned object before and during a fetch\<close>

text \<open>
  Claim C8, as the code has it. While \<^verbatim>\<open>shouldLoad\<close> is \<^verbatim>\<open>false\<close> and the hook holds
  no record, the returned \<^verbatim>\<open>data\<close> is \<^verbatim>\<open>undefined\<close>, and \<^verbatim>\<open>isLoading\<close> is
  \<^verbatim>\<open>lastFetched === undefined\<close>: \<^verbatim>\<open>true\<close> once the table has answered that there is no
  record (whatever the permission call has answered so far), but \<^verbatim>\<open>false\<close> during the
  initial read of the table, when the state is still \<^verbatim>\<open>null\<close>. The three hooks agree.
\<close>

theorem no_record_loading_flags:
  "data (useFrappeGetDocOffline doctype hasPermission LUndefined False swr) = None
   \<and> isLoading (useFrappeGetDocOffline doctype hasPermission LUndefined False swr) = True
   \<and> data (useFrappeGetDocOffline doctype hasPermission LNull False swr) = None
   \<and> isLoading (useFrappeGetDocOffline doctype hasPermission LNull False swr) = False
   \<and> data (useFrappeGetDocListOffline doctype hasPermission LUndefined False swr) = None
   \<and> isLoading (useFrappeGetDocListOffline doctype hasPermission LUndefined False swr) = True
   \<and> data (useFrappeGetDocListOffline doctype hasPermission LNull False swr) = None
   \<and> isLoading (useFrappeGetDocListOffline doctype hasPermission LNull False swr) = False
   \<and> data (useFrappeGetCallOffline LUndefined False swr) = None
   \<and> isLoading (useFrappeGetCallOffline LUndefined False swr) = True
   \<and> data (useFrappeGetCallOffline LNull False swr) = None
   \<and> isLoading (useFrappeGetCallOffline LNull False swr) = False"
  by (simp add: useFrappeGetDocOffline_def useFrappeGetDocListOffline_def
        useFrappeGetCallOffline_def)

theorem no_record_loading_flags_witness:
  "data (useFrappeGetDocOffline ''User'' None LUndefined False swr_idle) = None
   \<and> isLoading (useFrappeGetDocOffline ''User'' None LUndefined False swr_idle) = True
   \<and> data (useFrappeGetDocOffline ''User'' None LNull False swr_idle) = None
   \<and> isLoading (useFrappeGetDocOffline ''User'' None LNull False swr_idle) = False"
  using no_record_loading_flags [of "''User''" None swr_idle] by simp

theorem initial_read_not_loading_counterexample:
  "getLastFetched ex_table ''User'' (Some ''bob'') = LUndefined
   \<and> isLoading (useFrappeGetDocOffline ''User'' None useGetLastFetched_initial False swr_idle)
       = False"
  by (simp add: useFrappeGetDocOffline_def useGetLastFetched_initial_def getLastFetched_def
        table_get_def ex_table_def tmpl_def)




subsection \<open>The error while the permission call is pending\<close>

text \<open>
  Claim C10. In the document hook and in the list hook, while the permission call has
  not answered (\<^verbatim>\<open>hasPermission\<close> is \<^verbatim>\<open>undefined\<close>), the returned \<^verbatim>\<open>error\<close> is
  already the \<^verbatim>\<open>CustomError\<close> with status 403 and text \<^verbatim>\<open>FORBIDDEN\<close>, whatever the
  state of the hook and whatever the fetching hook returns, also when that hook reports
  no error.
\<close>

theorem pending_permission_is_forbidden:
  "error (useFrappeGetDocOffline doctype None lastFetched shouldLoad swr)
     = Some (Custom \<lparr> httpStatus = 403, httpStatusText = ''FORBIDDEN'',
                      message = ''there was an error'',
                      exception = ''frappe.exceptions.PermissionError: No permission for ''
                                  @ doctype \<rparr>)
   \<and> error (useFrappeGetDocListOffline doctype None lastFetchedList shouldLoad' swr')
     = Some (Custom \<lparr> httpStatus = 403, httpStatusText = ''FORBIDDEN'',
                      message = ''there was an error'',
                      exception = ''frappe.exceptions.PermissionError: No permission for ''
                                  @ doctype \<rparr>)"
  by (simp add: useFrappeGetDocOffline_def useFrappeGetDocListOffline_def forbidden_def)

theorem pending_permission_is_forbidden_witness:
  "swr_error swr_idle = None
   \<and> error (useFrappeGetDocOffline ''User'' None LNull False swr_idle)
     = Some (Custom \<lparr> httpStatus = 403, httpStatusText = ''FORBIDDEN'',
                      message = ''there was an error'',
                      exception = ''frappe.exceptions.PermissionError: No permission for User'' \<rparr>)
   \<and> error (useFrappeGetDocListOffline ''User'' None (LRec ex_list_rec) False swr_idle)
     = Some (Custom \<lparr> httpStatus = 403, httpStatusText = ''FORBIDDEN'',
                      message = ''there was an error'',
                      exception = ''frappe.exceptions.PermissionError: No permission for User'' \<rparr>)"
  using pending_permission_is_forbidden
    [of "''User''" LNull False swr_idle "LRec ex_list_rec" False swr_idle]
  by (simp add: swr_idle_def)

end
